theory Spec2Isabelle
  imports Complex_Main "HOL-Library.AList"
begin

section \<open>JavaScript values used by the stats store\<close>

text \<open>
  A JavaScript \<open>number\<close> is an IEEE 754 double. A finite one is the rational it denotes
  (there is no negative zero here); the three special values are constructors of their own,
  so that \<open>0 / 0\<close> and \<open>parseInt\<close> of a string without digits are values of the model and
  not unspecified terms.
\<close>

datatype number = Num rat | PosInfinity | NegInfinity | NaN

subsection \<open>Rounding to a double\<close>

text \<open>The number of binary digits of a natural number.\<close>

fun bitLength :: "nat \<Rightarrow> nat" where
  "bitLength n = (if n = 0 then 0 else Suc (bitLength (n div 2)))"

declare bitLength.simps [simp del]

text \<open>For \<open>0 < a\<close>, the exponent \<open>e\<close> with \<open>2^e \<le> a < 2^(e + 1)\<close>.\<close>

definition floorLog2 :: "rat \<Rightarrow> int" where
  "floorLog2 a =
     (if 1 \<le> a then int (bitLength (nat \<lfloor>a\<rfloor>)) - 1
      else - int (bitLength (nat (\<lceil>1 / a\<rceil> - 1))))"

definition pow2 :: "int \<Rightarrow> rat" where
  "pow2 e = (if 0 \<le> e then 2 ^ nat e else 1 / 2 ^ nat (- e))"

text \<open>The integer nearest to \<open>m\<close>; of two equally near ones, the even one.\<close>

definition roundHalfEven :: "rat \<Rightarrow> int" where
  "roundHalfEven m =
     (let f = \<lfloor>m\<rfloor>; d = m - of_int f
      in if d < 1 / 2 then f else if 1 / 2 < d then f + 1 else if even f then f else f + 1)"

text \<open>
  The double that an exact result \<open>x\<close> is rounded to (binary64, round to nearest, ties to
  even). The doubles around \<open>x\<close> are the multiples of \<open>2^(e - 52)\<close>, where \<open>e\<close> is the
  binary exponent of \<open>x\<close> and at least \<open>-1022\<close> (below that the subnormal numbers keep the
  spacing \<open>2^-1074\<close>); a result that rounds to \<open>2^1024\<close> or more is an infinity.
\<close>

definition roundToDouble :: "rat \<Rightarrow> number" where
  "roundToDouble x =
     (if x = 0 then Num 0
      else
        let a = \<bar>x\<bar>;
            e = max (floorLog2 a) (- 1022);
            q = pow2 (e - 52);
            r = of_int (roundHalfEven (a / q)) * q
        in if 2 ^ 1024 \<le> r then (if 0 < x then PosInfinity else NegInfinity)
           else Num (if 0 < x then r else - r))"

subsection \<open>The operators\<close>

fun isNaN :: "number \<Rightarrow> bool" where
  "isNaN NaN = True"
| "isNaN _ = False"

text \<open>The operator \<open>+\<close> on two numbers: the exact sum of two finite ones, rounded.\<close>

fun js_add :: "number \<Rightarrow> number \<Rightarrow> number" where
  "js_add (Num a) (Num b) = roundToDouble (a + b)"
| "js_add NaN _ = NaN"
| "js_add _ NaN = NaN"
| "js_add PosInfinity NegInfinity = NaN"
| "js_add NegInfinity PosInfinity = NaN"
| "js_add PosInfinity _ = PosInfinity"
| "js_add NegInfinity _ = NegInfinity"
| "js_add _ PosInfinity = PosInfinity"
| "js_add _ NegInfinity = NegInfinity"

text \<open>
  The operator \<open>-\<close>. The store applies it to clock readings only, which are integers;
  their difference is kept as it is (it is a double whenever both readings are within the
  range of \<open>Date.now()\<close>, which stays below \<open>2^53\<close> in magnitude).
\<close>

fun js_sub :: "number \<Rightarrow> number \<Rightarrow> number" where
  "js_sub (Num a) (Num b) = Num (a - b)"
| "js_sub NaN _ = NaN"
| "js_sub _ NaN = NaN"
| "js_sub PosInfinity PosInfinity = NaN"
| "js_sub NegInfinity NegInfinity = NaN"
| "js_sub PosInfinity _ = PosInfinity"
| "js_sub NegInfinity _ = NegInfinity"
| "js_sub _ PosInfinity = NegInfinity"
| "js_sub _ NegInfinity = PosInfinity"

text \<open>
  The operator \<open>/\<close>: the exact quotient of two finite numbers, rounded. A finite non-zero
  value divided by zero is an infinity of the dividend's sign, zero divided by zero is
  \<open>NaN\<close> (the divisor \<open>Num 0\<close> stands for \<open>+0\<close>, which is what an array length is).
\<close>

fun js_div :: "number \<Rightarrow> number \<Rightarrow> number" where
  "js_div NaN _ = NaN"
| "js_div _ NaN = NaN"
| "js_div (Num a) (Num b) =
     (if b = 0 then (if a = 0 then NaN else if 0 < a then PosInfinity else NegInfinity)
      else roundToDouble (a / b))"
| "js_div (Num a) _ = Num 0"
| "js_div PosInfinity (Num b) = (if 0 \<le> b then PosInfinity else NegInfinity)"
| "js_div NegInfinity (Num b) = (if 0 \<le> b then NegInfinity else PosInfinity)"
| "js_div _ _ = NaN"

text \<open>The operator \<open>>\<close>: every comparison with \<open>NaN\<close> is false.\<close>

fun js_gt :: "number \<Rightarrow> number \<Rightarrow> bool" where
  "js_gt (Num a) (Num b) = (b < a)"
| "js_gt NaN _ = False"
| "js_gt _ NaN = False"
| "js_gt PosInfinity PosInfinity = False"
| "js_gt PosInfinity _ = True"
| "js_gt _ PosInfinity = False"
| "js_gt NegInfinity _ = False"
| "js_gt _ NegInfinity = True"

subsection \<open>Strings and integers\<close>

text \<open>
  Strings are lists of 8-bit code units. \<open>isWhiteSpace\<close> holds of the white space and
  line terminator characters of the language that fit in that range.
\<close>

definition isWhiteSpace :: "char \<Rightarrow> bool" where
  "isWhiteSpace c = ((of_char c :: nat) \<in> {9, 10, 11, 12, 13, 32, 160})"

definition isDigit :: "char \<Rightarrow> bool" where
  "isDigit c = (48 \<le> (of_char c :: nat) \<and> (of_char c :: nat) \<le> 57)"

definition digitValue :: "char \<Rightarrow> nat" where
  "digitValue c = (of_char c :: nat) - 48"

definition digitChar :: "nat \<Rightarrow> char" where
  "digitChar d = char_of (48 + d)"

text \<open>
  \<open>parseInt(string, 10)\<close>, the only way the store calls it: leading white space is
  dropped, one sign is read, then the longest run of decimal digits; whatever follows the
  digits is ignored, and a string with no digit at that place gives \<open>NaN\<close>. The integer
  read is kept as it is (it is a double whenever it is below \<open>2^53\<close> in magnitude, as
  every clock reading is).
\<close>

definition parseInt :: "string \<Rightarrow> number" where
  "parseInt inputString =
     (let S = dropWhile isWhiteSpace inputString;
          sign = (if S \<noteq> [] \<and> hd S = CHR ''-'' then - 1 else (1 :: int));
          S = (if S \<noteq> [] \<and> (hd S = CHR ''+'' \<or> hd S = CHR ''-'') then tl S else S);
          Z = takeWhile isDigit S
      in if Z = [] then NaN
         else Num (of_int (sign * int (foldl (\<lambda>acc c. 10 * acc + digitValue c) 0 Z))))"

text \<open>
  \<open>Number.prototype.toString\<close> on an integer: its decimal digits, after a minus sign when
  it is negative. (The language switches to exponent notation from \<open>10^21\<close> on; the values
  of \<open>Date.now()\<close> are far below.)
\<close>

fun natDigits :: "nat \<Rightarrow> string" where
  "natDigits n = (if n < 10 then [digitChar n] else natDigits (n div 10) @ [digitChar (n mod 10)])"

declare natDigits.simps [simp del]

definition toString :: "int \<Rightarrow> string" where
  "toString n = (if n < 0 then CHR ''-'' # natDigits (nat (- n)) else natDigits (nat n))"

section \<open>The stats store\<close>

definition StatsEndpoint :: string where
  "StatsEndpoint = ''https://central.github.com/api/usage/desktop''"

definition LastDailyStatsReportKey :: string where
  "LastDailyStatsReportKey = ''last-daily-stats-report''"

text \<open>How often daily stats should be submitted (24 hours, in milliseconds).\<close>

definition DailyStatsReportInterval :: number where
  "DailyStatsReportInterval = Num (1000 * 60 * 60 * 24)"


subsection \<open>Objects, requests and the collaborators' state\<close>

text \<open>
  The timing stats for one app launch, a row of the table \<open>launches\<close>. The interface is
  declared in \<open>stats-database.ts\<close>; its fields are those the store reads and writes.
\<close>

record ILaunchStats =
  mainReadyTime :: number
  loadTime :: number
  rendererReadyTime :: number

text \<open>
  The daily dimensions, declared in the same file: \<open>commits\<close>, and the optional \<open>id\<close>
  of the row in the database (\<open>row_id\<close> here; absent in an object that was not read
  from the table).
\<close>

record IDailyDimensions =
  row_id :: "nat option"
  commits :: number

text \<open>
  An object literal is the list of its properties in insertion order. Spreading a source
  into an object assigns each property of the source: an existing key keeps its place and
  takes the new value, a new key is appended.
\<close>

datatype jsvalue = JString string | JNumber number

type_synonym jsobject = "(string \<times> jsvalue) list"

definition spread :: "jsobject \<Rightarrow> jsobject \<Rightarrow> jsobject" where
  "spread obj src = fold (\<lambda>(k, v). AList.update k v) src obj"

definition launchStatsProps :: "ILaunchStats \<Rightarrow> jsobject" where
  "launchStatsProps s =
     [(''mainReadyTime'', JNumber (mainReadyTime s)),
      (''loadTime'', JNumber (loadTime s)),
      (''rendererReadyTime'', JNumber (rendererReadyTime s))]"

text \<open>The properties of the value of \<open>getDailyDimensions\<close>; \<open>undefined\<close> has none.\<close>

definition dailyDimensionsProps :: "IDailyDimensions option \<Rightarrow> jsobject" where
  "dailyDimensionsProps dimensions =
     (case dimensions of
        None \<Rightarrow> []
      | Some d \<Rightarrow>
          (case row_id d of None \<Rightarrow> [] | Some i \<Rightarrow> [(''id'', JNumber (Num (of_nat i)))])
          @ [(''commits'', JNumber (commits d))])"

text \<open>A request handed to the transport (\<open>httpMethod\<close> is its field \<open>method\<close>).\<close>

record IHTTPRequest =
  url :: string
  httpMethod :: string
  headers :: "(string \<times> string) list"
  body :: jsobject

text \<open>What a promise is rejected with: some error, or the database's \<open>DataError\<close>.\<close>

datatype exn = Error string | DataError

text \<open>
  How the table \<open>dailyDimensions\<close> declares its primary key. The declaration is in
  \<open>stats-database.ts\<close>, which is not among the sources, so both ways of declaring an
  auto-incremented key are kept: in-line (\<open>'++id'\<close>: the key is the property \<open>id\<close> of
  the stored object) and out-of-line (\<open>'++'\<close>: the key is kept beside the object).
\<close>

datatype keyScheme = InlineKey | OutOfLineKey

text \<open>The calls made to the collaborators, in the order they are made.\<close>

datatype event =
    GetItem string
  | SetItem string string
  | LaunchesAdd ILaunchStats
  | LaunchesToArray
  | LaunchesClear
  | DailyDimensionsFirst
  | DailyDimensionsPut IDailyDimensions "nat option"
  | ProxyRequest IHTTPRequest
  | ConsoleLog string
  | ConsoleError string
  | ConsoleErrorExn exn

text \<open>
  What persists between calls: the key-value storage, the two tables of the database, and
  the trace of collaborator calls made so far. The table \<open>launches\<close> is its rows in
  insertion order; the table \<open>dailyDimensions\<close> is its rows in primary-key order, each
  the primary key and the stored \<open>commits\<close>, and \<open>schema\<close> is how that table declares
  its key.
\<close>

record world =
  localStorage :: "string \<rightharpoonup> string"
  launches :: "ILaunchStats list"
  dailyDimensions :: "(nat \<times> number) list"
  schema :: keyScheme
  events :: "event list"

text \<open>
  What a call of \<open>reportStats\<close> finds around it: the build flag \<open>__DEV__\<close>, the variable
  \<open>process.env.TEST_ENV\<close>, the two readings of \<open>Date.now()\<close> (the one taken by
  \<open>shouldReportDailyStats\<close>, then the one taken by \<open>reportStats\<close> itself), the
  transport (\<open>None\<close> when the promise of \<open>proxyRequest\<close> resolves, \<open>Some e\<close> when it
  rejects with \<open>e\<close>), the app version and the OS release.
\<close>

record env =
  DEV :: bool
  TEST_ENV :: "string option"
  dateNow_shouldReport :: int
  dateNow_reportStats :: int
  proxyRequest :: "IHTTPRequest \<Rightarrow> exn option"
  getVersion :: string
  OS_release :: string

definition emit :: "event \<Rightarrow> world \<Rightarrow> world" where
  "emit e w = w\<lparr>events := events w @ [e]\<rparr>"

text \<open>A string or \<open>null\<close>/\<open>undefined\<close> used as a condition: true when present and non-empty.\<close>

definition truthy :: "string option \<Rightarrow> bool" where
  "truthy s = (case s of None \<Rightarrow> False | Some t \<Rightarrow> t \<noteq> [])"

definition localStorage_getItem :: "string \<Rightarrow> world \<Rightarrow> string option \<times> world" where
  "localStorage_getItem k w = (localStorage w k, emit (GetItem k) w)"

definition localStorage_setItem :: "string \<Rightarrow> string \<Rightarrow> world \<Rightarrow> world" where
  "localStorage_setItem k v w = emit (SetItem k v) (w\<lparr>localStorage := (localStorage w)(k \<mapsto> v)\<rparr>)"

text \<open>
  Modelled from the spec: the table \<open>launches\<close> of \<open>StatsDatabase\<close> (\<open>stats-database.ts\<close>
  is not among the sources). The store collaborator appends a launch record, enumerates all
  of them and deletes all of them.
\<close>

definition launches_add :: "ILaunchStats \<Rightarrow> world \<Rightarrow> world" where
  "launches_add stats w = emit (LaunchesAdd stats) (w\<lparr>launches := launches w @ [stats]\<rparr>)"

definition launches_toArray :: "world \<Rightarrow> ILaunchStats list \<times> world" where
  "launches_toArray w = (launches w, emit LaunchesToArray w)"

definition launches_clear :: "world \<Rightarrow> world" where
  "launches_clear w = emit LaunchesClear (w\<lparr>launches := []\<rparr>)"

text \<open>
  The table \<open>dailyDimensions\<close>, as the database library (Dexie over IndexedDB) runs the
  two calls the store makes. \<open>limit(1).first()\<close> yields the row of the least key, or
  \<open>undefined\<close>; the object carries its key as \<open>id\<close> only when the key is in-line.
\<close>

definition dailyDimensions_first :: "world \<Rightarrow> IDailyDimensions option \<times> world" where
  "dailyDimensions_first w =
     ((case dailyDimensions w of
         [] \<Rightarrow> None
       | (i, c) # _ \<Rightarrow>
           Some \<lparr>row_id = (case schema w of InlineKey \<Rightarrow> Some i | OutOfLineKey \<Rightarrow> None),
                 commits = c\<rparr>),
      emit DailyDimensionsFirst w)"

fun upsert :: "nat \<Rightarrow> number \<Rightarrow> (nat \<times> number) list \<Rightarrow> (nat \<times> number) list" where
  "upsert k c [] = [(k, c)]"
| "upsert k c ((j, d) # rows) =
     (if j = k then (k, c) # rows
      else if k < j then (k, c) # (j, d) # rows
      else (j, d) # upsert k c rows)"

text \<open>The key generator of the table: one more than the greatest key so far, from 1.\<close>

definition nextKey :: "(nat \<times> number) list \<Rightarrow> nat" where
  "nextKey rows = Suc (fold max (map fst rows) 0)"

text \<open>
  \<open>put(obj, key)\<close>. On a table with an in-line key, a call that passes a key is refused
  with \<open>DataError\<close> and stores nothing; without one, the row is stored under the \<open>id\<close> of
  the object, or under a generated key when it has none. On a table with an out-of-line
  key the row is stored under the key passed, or under a generated key when none is.
  Storing under a key that exists replaces that row.
\<close>

definition dailyDimensions_put ::
  "IDailyDimensions \<Rightarrow> nat option \<Rightarrow> world \<Rightarrow> (exn + unit) \<times> world" where
  "dailyDimensions_put obj key w =
     (let w' = emit (DailyDimensionsPut obj key) w;
          store = (\<lambda>k. (Inr (), w'\<lparr>dailyDimensions := upsert k (commits obj) (dailyDimensions w)\<rparr>))
      in case schema w of
           InlineKey \<Rightarrow>
             (case key of
                Some k \<Rightarrow> (Inl DataError, w')
              | None \<Rightarrow>
                  store (case row_id obj of Some i \<Rightarrow> i | None \<Rightarrow> nextKey (dailyDimensions w)))
         | OutOfLineKey \<Rightarrow>
             store (case key of Some k \<Rightarrow> k | None \<Rightarrow> nextKey (dailyDimensions w)))"

subsection \<open>The operations of \<open>StatsStore\<close>\<close>

text \<open>
  Should the app report its daily stats? \<open>now\<close> is the reading of \<open>Date.now()\<close>.
\<close>

definition shouldReportDailyStats :: "int \<Rightarrow> world \<Rightarrow> bool \<times> world" where
  "shouldReportDailyStats now w =
     (let (lastDateString, w) = localStorage_getItem LastDailyStatsReportKey w;
          lastDate = Num 0;
          lastDate = (case lastDateString of
                        Some s \<Rightarrow> if s \<noteq> [] \<and> 0 < length s then parseInt s else lastDate
                      | None \<Rightarrow> lastDate);
          lastDate = (if isNaN lastDate then Num 0 else lastDate)
      in (js_gt (js_sub (Num (of_int now)) lastDate) DailyStatsReportInterval, w))"

text \<open>Record the given launch stats.\<close>

definition recordLaunchStats :: "ILaunchStats \<Rightarrow> world \<Rightarrow> world" where
  "recordLaunchStats stats w = launches_add stats w"

text \<open>Clear the stored launch stats.\<close>

definition clearLaunchStats :: "world \<Rightarrow> world" where
  "clearLaunchStats w = launches_clear w"

text \<open>Calculate the average launch stats: \<open>reduce\<close> from \<open>start\<close>, then the divisions.\<close>

definition getAverageLaunchStats :: "world \<Rightarrow> ILaunchStats \<times> world" where
  "getAverageLaunchStats w =
     (let (launches, w) = launches_toArray w;
          start = \<lparr>mainReadyTime = Num 0, loadTime = Num 0, rendererReadyTime = Num 0\<rparr>;
          totals = foldl (\<lambda>running current.
                      \<lparr>mainReadyTime = js_add (mainReadyTime running) (mainReadyTime current),
                       loadTime = js_add (loadTime running) (loadTime current),
                       rendererReadyTime =
                         js_add (rendererReadyTime running) (rendererReadyTime current)\<rparr>)
                    start launches;
          n = Num (of_nat (length launches))
      in (\<lparr>mainReadyTime = js_div (mainReadyTime totals) n,
           loadTime = js_div (loadTime totals) n,
           rendererReadyTime = js_div (rendererReadyTime totals) n\<rparr>, w))"

definition getDailyDimensions :: "world \<Rightarrow> IDailyDimensions option \<times> world" where
  "getDailyDimensions w = dailyDimensions_first w"

definition getDailyStats :: "env \<Rightarrow> world \<Rightarrow> jsobject \<times> world" where
  "getDailyStats e w =
     (let (launchStats, w) = getAverageLaunchStats w;
          (dailyDimensions, w) = getDailyDimensions w
      in (spread
            (spread [(''version'', JString (getVersion e)), (''osVersion'', JString (OS_release e))]
               (launchStatsProps launchStats))
            (dailyDimensionsProps dailyDimensions), w))"

text \<open>
  Report any stats which are eligible for reporting. The value is how the returned promise
  settles (\<open>Inl e\<close>: rejected with \<open>e\<close>) and the world after the call. The \<open>try\<close> block
  is \<open>attempt\<close>; the \<open>catch\<close> clause is the case on its outcome. The transport is the
  one collaborator that can fail here: the storage and the database always succeed.
\<close>

definition reportStats :: "env \<Rightarrow> world \<Rightarrow> (exn + unit) \<times> world" where
  "reportStats e w =
     (if DEV e \<or> truthy (TEST_ENV e) then (Inr (), w)
      else
        let (should, w) = shouldReportDailyStats (dateNow_shouldReport e) w in
        if \<not> should then (Inr (), w)
        else
          let now = dateNow_reportStats e;
              (stats, w) = getDailyStats e w;
              options = \<lparr>url = StatsEndpoint, httpMethod = ''POST'',
                         headers = [(''Content-Type'', ''application/json'')], body = stats\<rparr>;
              attempt =
                (case proxyRequest e options of
                   Some err \<Rightarrow> (Inl err, emit (ProxyRequest options) w)
                 | None \<Rightarrow>
                     let w = emit (ProxyRequest options) w;
                         w = emit (ConsoleLog ''Stats reported.'') w;
                         w = clearLaunchStats w;
                         w = localStorage_setItem LastDailyStatsReportKey (toString now) w
                     in (Inr (), w))
          in (case attempt of
                (Inl err, w) \<Rightarrow>
                  (Inr (), emit (ConsoleErrorExn err) (emit (ConsoleError ''Error reporting stats:'') w))
              | (Inr u, w) \<Rightarrow> (Inr u, w)))"

text \<open>
  Record that a commit was accomplished. The body of the read-write transaction, run
  without interleaving; the value is how the returned promise settles. When \<open>put\<close> is
  refused the transaction is aborted, and it has written nothing.
\<close>

definition recordCommit :: "world \<Rightarrow> (exn + unit) \<times> world" where
  "recordCommit w =
     (let (dimensions, w) = dailyDimensions_first w;
          newDimensions =
            \<lparr>row_id = None,
             commits = (case dimensions of Some d \<Rightarrow> js_add (commits d) (Num 1) | None \<Rightarrow> Num 1)\<rparr>
      in dailyDimensions_put newDimensions
           (case dimensions of Some d \<Rightarrow> row_id d | None \<Rightarrow> None) w)"


section \<open>Notions used in the statements\<close>

text \<open>The world in which the storage holds \<open>v\<close> (or nothing) under the report key.\<close>

definition stored :: "string option \<Rightarrow> world \<Rightarrow> world" where
  "stored v w = w\<lparr>localStorage := (localStorage w)(LastDailyStatsReportKey := v)\<rparr>"

text \<open>The launch record whose three timings are the finite numbers of the triple \<open>t\<close>.\<close>

definition launchRecord :: "rat \<times> rat \<times> rat \<Rightarrow> ILaunchStats" where
  "launchRecord t =
     \<lparr>mainReadyTime = Num (fst t), loadTime = Num (fst (snd t)),
      rendererReadyTime = Num (snd (snd t))\<rparr>"

text \<open>The timings of a launch given as whole milliseconds.\<close>

definition wholeTimings :: "nat \<times> nat \<times> nat \<Rightarrow> rat \<times> rat \<times> rat" where
  "wholeTimings t = (of_nat (fst t), of_nat (fst (snd t)), of_nat (snd (snd t)))"

text \<open>The rational \<open>x\<close> is a double: rounding leaves it as it is.\<close>

definition isDouble :: "rat \<Rightarrow> bool" where
  "isDouble x = (roundToDouble x = Num x)"

text \<open>The sum of finite numbers as the operator \<open>+\<close> computes it from 0, left to right.\<close>

definition roundedSum :: "rat list \<Rightarrow> number" where
  "roundedSum xs = foldl js_add (Num 0) (map Num xs)"

text \<open>\<open>K\<close> calls of \<open>recordCommit\<close> one after the other, whatever way each one settles.\<close>

definition recordCommits :: "nat \<Rightarrow> world \<Rightarrow> world" where
  "recordCommits K w = ((\<lambda>w. snd (recordCommit w)) ^^ K) w"

text \<open>
  The call \<open>reportStats e w\<close> reaches the transport: neither flag suppresses it and the
  eligibility check succeeds.
\<close>

definition submits :: "env \<Rightarrow> world \<Rightarrow> bool" where
  "submits e w =
     (\<not> DEV e \<and> \<not> truthy (TEST_ENV e) \<and> fst (shouldReportDailyStats (dateNow_shouldReport e) w))"

text \<open>The request that such a call hands to the transport.\<close>

definition dailyStatsRequest :: "env \<Rightarrow> world \<Rightarrow> IHTTPRequest" where
  "dailyStatsRequest e w =
     \<lparr>url = StatsEndpoint, httpMethod = ''POST'',
      headers = [(''Content-Type'', ''application/json'')],
      body = fst (getDailyStats e w)\<rparr>"



text \<open>
  A running example: three recorded launches, five commits, nothing persisted under the
  report key, a production build whose transport accepts every request.
\<close>

definition exampleWorld :: world where
  "exampleWorld =
     \<lparr>localStorage = Map.empty,
      launches = [launchRecord (100, 200, 50), launchRecord (200, 300, 70),
                  launchRecord (300, 400, 90)],
      dailyDimensions = [(1, Num 5)],
      schema = InlineKey,
      events = []\<rparr>"

definition exampleEnv :: env where
  "exampleEnv =
     \<lparr>DEV = False, TEST_ENV = None,
      dateNow_shouldReport = 1700000000000, dateNow_reportStats = 1700000000003,
      proxyRequest = (\<lambda>r. None), getVersion = ''1.0.0'', OS_release = ''16.0.0''\<rparr>"

section \<open>Properties\<close>

lemma isDigit_digitChar: "d < 10 \<Longrightarrow> isDigit (digitChar d)"
  by (simp add: isDigit_def digitChar_def)

lemma digitValue_digitChar: "d < 10 \<Longrightarrow> digitValue (digitChar d) = d"
  by (simp add: digitValue_def digitChar_def)

lemma natDigits_all_digits: "\<forall>c \<in> set (natDigits n). isDigit c"
proof (induction n rule: natDigits.induct)
  case (1 n)
  show ?case
  proof (cases "n < 10")
    case True
    then show ?thesis by (simp add: natDigits.simps [of n] isDigit_digitChar)
  next
    case False
    with "1" show ?thesis by (simp add: natDigits.simps [of n] isDigit_digitChar)
  qed
qed

lemma natDigits_nonempty: "natDigits n \<noteq> []"
  by (subst natDigits.simps) simp

lemma natDigits_value: "foldl (\<lambda>acc c. 10 * acc + digitValue c) 0 (natDigits n) = n"
proof (induction n rule: natDigits.induct)
  case (1 n)
  show ?case
  proof (cases "n < 10")
    case True
    then show ?thesis by (simp add: natDigits.simps [of n] digitValue_digitChar)
  next
    case False
    with "1" show ?thesis by (simp add: natDigits.simps [of n] digitValue_digitChar)
  qed
qed

lemma isDigit_not_special:
  "isDigit c \<Longrightarrow> \<not> isWhiteSpace c \<and> c \<noteq> CHR ''-'' \<and> c \<noteq> CHR ''+''"
  by (auto simp: isDigit_def isWhiteSpace_def)

lemma minus_not_space: "\<not> isWhiteSpace (CHR ''-'')" "\<not> isDigit (CHR ''-'')"
  by (simp_all add: isWhiteSpace_def isDigit_def)

lemma parseInt_digits:
  assumes "isDigit c" and "\<forall>x \<in> set cs. isDigit x"
  shows "parseInt (c # cs) =
           Num (of_int (int (foldl (\<lambda>acc c. 10 * acc + digitValue c) 0 (c # cs))))"
proof -
  have tw: "takeWhile isDigit (c # cs) = c # cs"
    using assms by (simp add: takeWhile_eq_all_conv del: takeWhile.simps)
  have dw: "dropWhile isWhiteSpace (c # cs) = c # cs"
    using isDigit_not_special [OF assms(1)] by simp
  have hd: "c \<noteq> CHR ''-''" "c \<noteq> CHR ''+''"
    using isDigit_not_special [OF assms(1)] by simp_all
  show ?thesis
    unfolding parseInt_def dw Let_def using hd
    by (simp only: list.sel tw if_False simp_thms list.simps mult_1)
qed

lemma parseInt_minus_digits:
  assumes "isDigit c" and "\<forall>x \<in> set cs. isDigit x"
  shows "parseInt (CHR ''-'' # c # cs) =
           Num (of_int (- int (foldl (\<lambda>acc c. 10 * acc + digitValue c) 0 (c # cs))))"
proof -
  have tw: "takeWhile isDigit (c # cs) = c # cs"
    using assms by (simp add: takeWhile_eq_all_conv del: takeWhile.simps)
  have dw: "dropWhile isWhiteSpace (CHR ''-'' # c # cs) = CHR ''-'' # c # cs"
    using minus_not_space by simp
  show ?thesis
    unfolding parseInt_def dw Let_def
    by (simp only: list.sel tw if_True if_False simp_thms list.simps mult_minus1)
qed

lemma parseInt_natDigits: "parseInt (natDigits n) = Num (of_nat n)"
proof -
  obtain c cs where eq: "natDigits n = c # cs"
    using natDigits_nonempty [of n] by (cases "natDigits n") auto
  have dig: "isDigit c" "\<forall>x \<in> set cs. isDigit x"
    using natDigits_all_digits [of n] eq by simp_all
  show ?thesis
    using parseInt_digits [OF dig] natDigits_value [of n] by (simp add: eq del: foldl_Cons)
qed

lemma parseInt_minus_natDigits: "parseInt (CHR ''-'' # natDigits n) = Num (- of_nat n)"
proof -
  obtain c cs where eq: "natDigits n = c # cs"
    using natDigits_nonempty [of n] by (cases "natDigits n") auto
  have dig: "isDigit c" "\<forall>x \<in> set cs. isDigit x"
    using natDigits_all_digits [of n] eq by simp_all
  show ?thesis
    using parseInt_minus_digits [OF dig] natDigits_value [of n] by (simp add: eq del: foldl_Cons)
qed

lemma parseInt_toString: "parseInt (toString n) = Num (of_int n)"
proof (cases "n < 0")
  case True
  then have "(of_nat (nat (- n)) :: rat) = - of_int n"
    by simp
  with True show ?thesis by (simp add: toString_def parseInt_minus_natDigits)
next
  case False
  then have "(of_nat (nat n) :: rat) = of_int n" by simp
  with False show ?thesis by (simp add: toString_def parseInt_natDigits)
qed


lemma toString_nonempty: "toString n \<noteq> []"
  by (simp add: toString_def natDigits_nonempty)

lemma stored_lookup: "localStorage (stored v w) LastDailyStatsReportKey = v"
  by (simp add: stored_def)

lemma shouldReport_snd: "snd (shouldReportDailyStats now w) = emit (GetItem LastDailyStatsReportKey) w"
  by (simp add: shouldReportDailyStats_def localStorage_getItem_def Let_def)

lemma interval_val: "DailyStatsReportInterval = Num 86400000"
  by (simp add: DailyStatsReportInterval_def)

lemma shouldReport_none:
  "localStorage w LastDailyStatsReportKey = None \<Longrightarrow>
     fst (shouldReportDailyStats now w) = (86400000 < now)"
  by (simp add: shouldReportDailyStats_def localStorage_getItem_def Let_def interval_val)

lemma shouldReport_empty:
  "localStorage w LastDailyStatsReportKey = Some [] \<Longrightarrow>
     fst (shouldReportDailyStats now w) = (86400000 < now)"
  by (simp add: shouldReportDailyStats_def localStorage_getItem_def Let_def interval_val)

lemma rat_interval_less: "((86400000 :: rat) < of_int now - of_int t) = (t + 86400000 < now)"
proof -
  have "((86400000 :: rat) < of_int now - of_int t) = ((of_int 86400000 :: rat) < of_int (now - t))"
    by simp
  also have "\<dots> = (86400000 < now - t)"
    by (simp only: of_int_less_iff)
  also have "\<dots> = (t + 86400000 < now)"
    by linarith
  finally show ?thesis .
qed

lemma shouldReport_parse:
  "localStorage w LastDailyStatsReportKey = Some s \<Longrightarrow> s \<noteq> [] \<Longrightarrow> parseInt s = Num (of_int t) \<Longrightarrow>
     fst (shouldReportDailyStats now w) = (t + 86400000 < now)"
  by (simp add: shouldReportDailyStats_def localStorage_getItem_def Let_def interval_val
      rat_interval_less)


lemma parseInt_0: "parseInt ''0'' = Num 0"
  by (simp add: parseInt_def isWhiteSpace_def isDigit_def digitValue_def)

lemma shouldReport_mono:
  assumes a: "fst (shouldReportDailyStats now w)" and le: "now \<le> now'"
  shows "fst (shouldReportDailyStats now' w)"
proof -
  define lastDate where "lastDate =
     (let l = (case localStorage w LastDailyStatsReportKey of
                        Some s \<Rightarrow> if s \<noteq> [] \<and> 0 < length s then parseInt s else Num 0
                      | None \<Rightarrow> Num 0) in if isNaN l then Num 0 else l)"
  have eq: "\<And>n. fst (shouldReportDailyStats n w) = js_gt (js_sub (Num (of_int n)) lastDate) (Num 86400000)"
    by (simp add: shouldReportDailyStats_def localStorage_getItem_def Let_def interval_val lastDate_def)
  have r: "(of_int now :: rat) \<le> of_int now'" using le by simp
  show ?thesis
    using a r unfolding eq by (cases lastDate) auto
qed

lemma shouldReport_stored_toString:
  "fst (shouldReportDailyStats now (stored (Some (toString t)) w)) = (t + 86400000 < now)"
  using shouldReport_parse [of "stored (Some (toString t)) w" "toString t" t now]
  by (simp add: toString_nonempty parseInt_toString stored_lookup)

text \<open>
  Claim C3. The report interval is 86,400,000 ms. With the decimal string of \<open>t\<close> under
  the report key, the check is true exactly when \<open>now - t\<close> exceeds the interval; with no
  value, the empty string or \<open>0\<close> under the key, the timestamp counts as 0, so that a
  first call is eligible exactly when \<open>now\<close> exceeds the interval.
\<close>

theorem shouldReportDailyStats_interval:
  "DailyStatsReportInterval = Num 86400000
   \<and> fst (shouldReportDailyStats now (stored (Some (toString t)) w)) = (86400000 < now - t)
   \<and> fst (shouldReportDailyStats now (stored None w)) = (86400000 < now - 0)
   \<and> fst (shouldReportDailyStats now (stored (Some []) w)) = (86400000 < now - 0)
   \<and> fst (shouldReportDailyStats now (stored (Some ''0'') w)) = (86400000 < now - 0)"
proof -
  have a: "fst (shouldReportDailyStats now (stored (Some (toString t)) w)) = (86400000 < now - t)"
    unfolding shouldReport_stored_toString by linarith
  have b: "fst (shouldReportDailyStats now (stored None w)) = (86400000 < now - 0)"
    by (simp add: shouldReport_none stored_lookup)
  have c: "fst (shouldReportDailyStats now (stored (Some []) w)) = (86400000 < now - 0)"
    by (simp add: shouldReport_empty stored_lookup)
  have d: "fst (shouldReportDailyStats now (stored (Some ''0'') w)) = (86400000 < now - 0)"
    using shouldReport_parse [of "stored (Some ''0'') w" "''0''" 0 now]
    by (simp add: parseInt_0 stored_lookup)
  show ?thesis using a b c d interval_val by simp
qed


lemma getAverageLaunchStats_snd: "snd (getAverageLaunchStats w) = emit LaunchesToArray w"
  by (simp add: getAverageLaunchStats_def launches_toArray_def Let_def)

lemma getAverageLaunchStats_fst_cong:
  "launches w = launches w' \<Longrightarrow> fst (getAverageLaunchStats w) = fst (getAverageLaunchStats w')"
  by (simp add: getAverageLaunchStats_def launches_toArray_def Let_def)

lemma getDailyDimensions_snd: "snd (getDailyDimensions w) = emit DailyDimensionsFirst w"
  by (simp add: getDailyDimensions_def dailyDimensions_first_def)

lemma getDailyDimensions_fst_cong:
  "dailyDimensions w = dailyDimensions w' \<Longrightarrow> schema w = schema w' \<Longrightarrow>
     fst (getDailyDimensions w) = fst (getDailyDimensions w')"
  by (simp add: getDailyDimensions_def dailyDimensions_first_def split: list.split)

lemma emit_fields:
  "localStorage (emit ev w) = localStorage w"
  "launches (emit ev w) = launches w"
  "dailyDimensions (emit ev w) = dailyDimensions w"
  "schema (emit ev w) = schema w"
  "events (emit ev w) = events w @ [ev]"
  by (simp_all add: emit_def)

lemma getDailyStats_snd:
  "snd (getDailyStats e w) = emit DailyDimensionsFirst (emit LaunchesToArray w)"
  by (simp add: getDailyStats_def Let_def case_prod_beta getDailyDimensions_snd
      getAverageLaunchStats_snd)

lemma getDailyStats_fst_cong:
  assumes "launches w = launches w'" and "dailyDimensions w = dailyDimensions w'"
    and "schema w = schema w'"
  shows "fst (getDailyStats e w) = fst (getDailyStats e w')"
proof -
  have a: "fst (getAverageLaunchStats w) = fst (getAverageLaunchStats w')"
    using assms(1) by (rule getAverageLaunchStats_fst_cong)
  have d: "fst (getDailyDimensions (snd (getAverageLaunchStats w)))
            = fst (getDailyDimensions (snd (getAverageLaunchStats w')))"
    by (rule getDailyDimensions_fst_cong)
       (simp_all add: getAverageLaunchStats_snd emit_fields assms(2) assms(3))
  show ?thesis
    by (simp add: getDailyStats_def Let_def case_prod_beta a d)
qed

lemma getDailyStats_after_check:
  "getDailyStats e (emit (GetItem LastDailyStatsReportKey) w) =
     (fst (getDailyStats e w),
      emit DailyDimensionsFirst (emit LaunchesToArray (emit (GetItem LastDailyStatsReportKey) w)))"
proof -
  have "fst (getDailyStats e (emit (GetItem LastDailyStatsReportKey) w)) = fst (getDailyStats e w)"
    by (rule getDailyStats_fst_cong) (simp_all add: emit_fields)
  then show ?thesis
    by (simp add: prod_eq_iff getDailyStats_snd)
qed

lemma submits_check:
  "submits e w \<Longrightarrow>
     shouldReportDailyStats (dateNow_shouldReport e) w = (True, emit (GetItem LastDailyStatsReportKey) w)"
  by (simp add: submits_def prod_eq_iff shouldReport_snd)

lemma reportStats_success:
  assumes "submits e w" and "proxyRequest e (dailyStatsRequest e w) = None"
  shows "reportStats e w =
     (Inr (),
      w\<lparr>localStorage := (localStorage w)(LastDailyStatsReportKey \<mapsto> toString (dateNow_reportStats e)),
        launches := [],
        events := events w @
          [GetItem LastDailyStatsReportKey, LaunchesToArray, DailyDimensionsFirst,
           ProxyRequest (dailyStatsRequest e w), ConsoleLog ''Stats reported.'', LaunchesClear,
           SetItem LastDailyStatsReportKey (toString (dateNow_reportStats e))]\<rparr>)"
proof -
  have flags: "\<not> (DEV e \<or> truthy (TEST_ENV e))"
    using assms(1) by (simp add: submits_def)
  have req: "proxyRequest e
      \<lparr>url = StatsEndpoint, httpMethod = ''POST'',
       headers = [(''Content-Type'', ''application/json'')],
       body = fst (getDailyStats e w)\<rparr> = None"
    using assms(2) by (simp add: dailyStatsRequest_def)
  show ?thesis
    unfolding reportStats_def
    by (simp only: flags if_False submits_check [OF assms(1)] getDailyStats_after_check
          Let_def prod.case req option.case simp_thms)
       (simp add: clearLaunchStats_def launches_clear_def localStorage_setItem_def emit_def
          dailyStatsRequest_def)
qed

lemma reportStats_failure:
  assumes "submits e w" and "proxyRequest e (dailyStatsRequest e w) = Some err"
  shows "reportStats e w =
     (Inr (),
      w\<lparr>events := events w @
          [GetItem LastDailyStatsReportKey, LaunchesToArray, DailyDimensionsFirst,
           ProxyRequest (dailyStatsRequest e w), ConsoleError ''Error reporting stats:'',
           ConsoleErrorExn err]\<rparr>)"
proof -
  have flags: "\<not> (DEV e \<or> truthy (TEST_ENV e))"
    using assms(1) by (simp add: submits_def)
  have req: "proxyRequest e
      \<lparr>url = StatsEndpoint, httpMethod = ''POST'',
       headers = [(''Content-Type'', ''application/json'')],
       body = fst (getDailyStats e w)\<rparr> = Some err"
    using assms(2) by (simp add: dailyStatsRequest_def)
  show ?thesis
    unfolding reportStats_def
    by (simp only: flags if_False submits_check [OF assms(1)] getDailyStats_after_check
          Let_def prod.case req option.case simp_thms sum.case)
       (simp add: emit_def dailyStatsRequest_def)
qed


text \<open>
  Claim C1. When a call of \<open>reportStats\<close> reaches the transport and the submission
  succeeds, the table of launches is empty afterwards, the storage holds under the report
  key the decimal string of the \<open>now\<close> that the call read (which \<open>parseInt\<close> reads back
  as that number), and the table of daily dimensions, hence the commits counter, is what
  it was.
\<close>

theorem reportStats_success_clears_and_stamps:
  assumes "submits e w" and "proxyRequest e (dailyStatsRequest e w) = None"
  shows "launches (snd (reportStats e w)) = []
       \<and> localStorage (snd (reportStats e w)) LastDailyStatsReportKey
           = Some (toString (dateNow_reportStats e))
       \<and> parseInt (toString (dateNow_reportStats e)) = Num (of_int (dateNow_reportStats e))
       \<and> dailyDimensions (snd (reportStats e w)) = dailyDimensions w
       \<and> fst (getDailyDimensions (snd (reportStats e w))) = fst (getDailyDimensions w)"
proof -
  have d: "dailyDimensions (snd (reportStats e w)) = dailyDimensions w"
    by (simp add: reportStats_success [OF assms])
  have k: "schema (snd (reportStats e w)) = schema w"
    by (simp add: reportStats_success [OF assms])
  show ?thesis
    using d getDailyDimensions_fst_cong [OF d k]
    by (simp add: reportStats_success [OF assms] parseInt_toString)
qed

lemma example_submits: "submits exampleEnv exampleWorld"
  by (simp add: submits_def shouldReport_none exampleWorld_def truthy_def)
     (simp add: exampleEnv_def)

lemma example_transport: "proxyRequest exampleEnv r = None"
  by (simp add: exampleEnv_def)

theorem reportStats_success_clears_and_stamps_witness:
  "submits exampleEnv exampleWorld
   \<and> proxyRequest exampleEnv (dailyStatsRequest exampleEnv exampleWorld) = None
   \<and> launches (snd (reportStats exampleEnv exampleWorld)) = []
   \<and> localStorage (snd (reportStats exampleEnv exampleWorld)) LastDailyStatsReportKey
           = Some (toString 1700000000003)
   \<and> dailyDimensions (snd (reportStats exampleEnv exampleWorld)) = [(1, Num 5)]"
proof -
  have n: "dateNow_reportStats exampleEnv = 1700000000003"
    by (simp add: exampleEnv_def)
  have d: "dailyDimensions exampleWorld = [(1, Num 5)]"
    by (simp add: exampleWorld_def)
  show ?thesis
    using reportStats_success_clears_and_stamps [OF example_submits example_transport] example_submits example_transport n d
    by simp
qed

text \<open>
  Claim C2. When a call of \<open>reportStats\<close> reaches the transport and the submission
  fails, the promise of \<open>reportStats\<close> still resolves, the storage and both tables are
  what they were, and the only calls made after the request are the two to
  \<open>console.error\<close>.
\<close>

theorem reportStats_failure_keeps_state:
  assumes "submits e w" and "proxyRequest e (dailyStatsRequest e w) = Some err"
  shows "fst (reportStats e w) = Inr ()
       \<and> localStorage (snd (reportStats e w)) = localStorage w
       \<and> launches (snd (reportStats e w)) = launches w
       \<and> dailyDimensions (snd (reportStats e w)) = dailyDimensions w
       \<and> events (snd (reportStats e w)) = events w @
          [GetItem LastDailyStatsReportKey, LaunchesToArray, DailyDimensionsFirst,
           ProxyRequest (dailyStatsRequest e w), ConsoleError ''Error reporting stats:'',
           ConsoleErrorExn err]"
  by (simp add: reportStats_failure [OF assms])

text \<open>
  Claim C6. When \<open>__DEV__\<close> is set or \<open>TEST_ENV\<close> is a non-empty string, \<open>reportStats\<close>
  resolves and leaves the world as it was, trace included: no read of the storage, no
  access to the tables, no request.
\<close>

theorem reportStats_dev_noop:
  assumes "DEV e \<or> truthy (TEST_ENV e)"
  shows "reportStats e w = (Inr (), w)"
  using assms by (simp add: reportStats_def)

theorem reportStats_dev_noop_witness:
  "(DEV (exampleEnv\<lparr>DEV := True\<rparr>) \<or> truthy (TEST_ENV (exampleEnv\<lparr>DEV := True\<rparr>)))
   \<and> reportStats (exampleEnv\<lparr>DEV := True\<rparr>) exampleWorld = (Inr (), exampleWorld)
   \<and> (DEV (exampleEnv\<lparr>TEST_ENV := Some ''1''\<rparr>) \<or> truthy (TEST_ENV (exampleEnv\<lparr>TEST_ENV := Some ''1''\<rparr>)))
   \<and> reportStats (exampleEnv\<lparr>TEST_ENV := Some ''1''\<rparr>) exampleWorld = (Inr (), exampleWorld)"
proof -
  have a: "DEV (exampleEnv\<lparr>DEV := True\<rparr>) \<or> truthy (TEST_ENV (exampleEnv\<lparr>DEV := True\<rparr>))"
    by simp
  have b: "DEV (exampleEnv\<lparr>TEST_ENV := Some ''1''\<rparr>) \<or> truthy (TEST_ENV (exampleEnv\<lparr>TEST_ENV := Some ''1''\<rparr>))"
    by (simp add: truthy_def)
  show ?thesis
    using a b reportStats_dev_noop [OF a, of exampleWorld] reportStats_dev_noop [OF b, of exampleWorld] by simp
qed


theorem reportStats_failure_keeps_state_witness:
  "submits (exampleEnv\<lparr>proxyRequest := (\<lambda>r. Some (Error ''offline''))\<rparr>) exampleWorld
   \<and> proxyRequest (exampleEnv\<lparr>proxyRequest := (\<lambda>r. Some (Error ''offline''))\<rparr>)
        (dailyStatsRequest (exampleEnv\<lparr>proxyRequest := (\<lambda>r. Some (Error ''offline''))\<rparr>) exampleWorld)
       = Some (Error ''offline'')
   \<and> fst (reportStats (exampleEnv\<lparr>proxyRequest := (\<lambda>r. Some (Error ''offline''))\<rparr>) exampleWorld)
       = Inr ()
   \<and> localStorage (snd (reportStats (exampleEnv\<lparr>proxyRequest := (\<lambda>r. Some (Error ''offline''))\<rparr>)
        exampleWorld)) = localStorage exampleWorld
   \<and> launches (snd (reportStats (exampleEnv\<lparr>proxyRequest := (\<lambda>r. Some (Error ''offline''))\<rparr>)
        exampleWorld)) = launches exampleWorld
   \<and> dailyDimensions (snd (reportStats (exampleEnv\<lparr>proxyRequest := (\<lambda>r. Some (Error ''offline''))\<rparr>)
        exampleWorld)) = dailyDimensions exampleWorld"
proof -
  let ?e = "exampleEnv\<lparr>proxyRequest := (\<lambda>r. Some (Error ''offline''))\<rparr>"
  have s: "submits ?e exampleWorld"
    using example_submits by (simp add: submits_def)
  have t: "proxyRequest ?e (dailyStatsRequest ?e exampleWorld) = Some (Error ''offline'')"
    by simp
  show ?thesis
    using reportStats_failure_keeps_state [OF s t] s t by simp
qed

lemma getAverageLaunchStats_after_success:
  assumes "submits e w" and "proxyRequest e (dailyStatsRequest e w) = None"
  shows "fst (getAverageLaunchStats (snd (reportStats e w)))
           = \<lparr>mainReadyTime = NaN, loadTime = NaN, rendererReadyTime = NaN\<rparr>"
proof -
  have "launches (snd (reportStats e w)) = []"
    by (simp add: reportStats_success [OF assms])
  then show ?thesis
    by (simp add: getAverageLaunchStats_def launches_toArray_def Let_def)
qed

text \<open>
  Claim C7, at the input where the code departs from it. With no launch record in the
  table, \<open>getAverageLaunchStats\<close> divides the zero totals by the zero length: all three
  timings are \<open>NaN\<close>, and so are the timing properties of the payload. The table is in that
  state after every successful report.
\<close>

theorem getAverageLaunchStats_empty_NaN:
  "fst (getAverageLaunchStats (w\<lparr>launches := []\<rparr>))
     = \<lparr>mainReadyTime = NaN, loadTime = NaN, rendererReadyTime = NaN\<rparr>
   \<and> map_of (fst (getDailyStats e (w\<lparr>launches := []\<rparr>))) ''mainReadyTime'' = Some (JNumber NaN)
   \<and> map_of (fst (getDailyStats e (w\<lparr>launches := []\<rparr>))) ''loadTime'' = Some (JNumber NaN)
   \<and> map_of (fst (getDailyStats e (w\<lparr>launches := []\<rparr>))) ''rendererReadyTime''
       = Some (JNumber NaN)"
proof -
  have a: "fst (getAverageLaunchStats (w\<lparr>launches := []\<rparr>))
     = \<lparr>mainReadyTime = NaN, loadTime = NaN, rendererReadyTime = NaN\<rparr>"
    by (simp add: getAverageLaunchStats_def launches_toArray_def Let_def)
  show ?thesis
    by (simp add: a getDailyStats_def Let_def case_prod_beta spread_def launchStatsProps_def
        dailyDimensionsProps_def getDailyDimensions_def dailyDimensions_first_def
        split: list.split option.split)
qed

lemma getDailyStats_commits_row:
  "dailyDimensions w = (i, c) # rows \<Longrightarrow>
     map_of (fst (getDailyStats e w)) ''commits'' = Some (JNumber c)"
  by (simp add: getDailyStats_def Let_def case_prod_beta spread_def launchStatsProps_def
      dailyDimensionsProps_def getDailyDimensions_def dailyDimensions_first_def
      getAverageLaunchStats_snd emit_fields split: keyScheme.split)

text \<open>
  Claim C8, at the input where the code departs from it. With no row in the table of daily
  dimensions, \<open>getDailyDimensions\<close> yields \<open>undefined\<close>, the spread adds no property, and
  the payload has no \<open>commits\<close> key at all (nor the value 0 under it).
\<close>

theorem getDailyStats_no_row_no_commits:
  "fst (getDailyDimensions (w\<lparr>dailyDimensions := []\<rparr>)) = None
   \<and> map_of (fst (getDailyStats e (w\<lparr>dailyDimensions := []\<rparr>))) ''commits'' = None
   \<and> map fst (fst (getDailyStats e (w\<lparr>dailyDimensions := []\<rparr>)))
       = [''version'', ''osVersion'', ''mainReadyTime'', ''loadTime'', ''rendererReadyTime'']"
  by (simp add: getDailyStats_def Let_def case_prod_beta spread_def launchStatsProps_def
      dailyDimensionsProps_def getDailyDimensions_def dailyDimensions_first_def
      getAverageLaunchStats_snd emit_fields)


lemma reportStats_success_stored:
  assumes "submits e w" and "proxyRequest e (dailyStatsRequest e w) = None"
  shows "fst (shouldReportDailyStats now (snd (reportStats e w)))
           = (dateNow_reportStats e + 86400000 < now)"
proof -
  have "localStorage (snd (reportStats e w)) LastDailyStatsReportKey
          = Some (toString (dateNow_reportStats e))"
    by (simp add: reportStats_success [OF assms])
  then show ?thesis
    by (rule shouldReport_parse) (simp_all add: toString_nonempty parseInt_toString)
qed

text \<open>
  Claim C9 as stated fails at the threshold it names: with the timestamp 1700000000000
  persisted, a check at exactly that time plus the interval is not eligible, since the
  comparison is strict.
\<close>

theorem shouldReportDailyStats_at_interval_counterexample:
  "parseInt ''1700000000000'' = Num 1700000000000
   \<and> \<not> fst (shouldReportDailyStats (1700000000000 + 86400000)
            (stored (Some ''1700000000000'') exampleWorld))"
proof -
  have p: "parseInt ''1700000000000'' = Num (of_int 1700000000000)"
    by (simp add: parseInt_def isWhiteSpace_def isDigit_def digitValue_def)
  have "fst (shouldReportDailyStats (1700000000000 + 86400000)
            (stored (Some ''1700000000000'') exampleWorld))
        = (1700000000000 + 86400000 < (1700000000000 + 86400000 :: int))"
    by (rule shouldReport_parse [OF _ _ p]) (simp_all add: stored_lookup)
  then show ?thesis using p by simp
qed

text \<open>
  Claim C9, amended. For every persisted value the check is monotonic in \<open>now\<close>. With the
  decimal string of \<open>t\<close> persisted it is false for every \<open>now\<close> up to and including
  \<open>t\<close> plus the interval and true for every later \<open>now\<close>, so the least eligible time is
  \<open>t\<close> plus the interval plus 1 ms. After a successful report that read \<open>now\<close>, a check at
  \<open>now + 1\<close> is not eligible and a check at \<open>now\<close> plus the interval plus 1 is.
\<close>

theorem shouldReportDailyStats_threshold:
  "(fst (shouldReportDailyStats now w) \<longrightarrow> now \<le> now' \<longrightarrow> fst (shouldReportDailyStats now' w))
   \<and> fst (shouldReportDailyStats now (stored (Some (toString t)) w)) = (t + 86400000 < now)
   \<and> (submits e w \<and> proxyRequest e (dailyStatsRequest e w) = None \<longrightarrow>
        \<not> fst (shouldReportDailyStats (dateNow_reportStats e + 1) (snd (reportStats e w)))
        \<and> \<not> fst (shouldReportDailyStats (dateNow_reportStats e + 86400000) (snd (reportStats e w)))
        \<and> fst (shouldReportDailyStats (dateNow_reportStats e + 86400000 + 1)
              (snd (reportStats e w))))"
proof -
  have mono: "fst (shouldReportDailyStats now w) \<longrightarrow> now \<le> now' \<longrightarrow>
      fst (shouldReportDailyStats now' w)"
    using shouldReport_mono by blast
  have after: "submits e w \<and> proxyRequest e (dailyStatsRequest e w) = None \<longrightarrow>
        \<not> fst (shouldReportDailyStats (dateNow_reportStats e + 1) (snd (reportStats e w)))
        \<and> \<not> fst (shouldReportDailyStats (dateNow_reportStats e + 86400000) (snd (reportStats e w)))
        \<and> fst (shouldReportDailyStats (dateNow_reportStats e + 86400000 + 1)
              (snd (reportStats e w)))"
    by (simp add: reportStats_success_stored)
  show ?thesis
    using mono after shouldReport_stored_toString [of now t w] by blast
qed

theorem shouldReportDailyStats_threshold_witness:
  "fst (shouldReportDailyStats 86400001 exampleWorld) \<and> (86400001 :: int) \<le> 86400002
   \<and> fst (shouldReportDailyStats 86400002 exampleWorld)
   \<and> submits exampleEnv exampleWorld
   \<and> proxyRequest exampleEnv (dailyStatsRequest exampleEnv exampleWorld) = None
   \<and> \<not> fst (shouldReportDailyStats (1700000000003 + 1) (snd (reportStats exampleEnv exampleWorld)))
   \<and> fst (shouldReportDailyStats (1700000000003 + 86400000 + 1)
        (snd (reportStats exampleEnv exampleWorld)))"
proof -
  have a: "fst (shouldReportDailyStats 86400001 exampleWorld)"
    by (simp add: shouldReport_none exampleWorld_def)
  have n: "dateNow_reportStats exampleEnv = 1700000000003"
    by (simp add: exampleEnv_def)
  show ?thesis
    using shouldReportDailyStats_threshold
            [of 86400001 exampleWorld 86400002 0 exampleEnv]
          a example_submits example_transport n
    by simp
qed



lemma bitLength_less: "n < 2 ^ bitLength n"
proof (induction n rule: bitLength.induct)
  case (1 n)
  show ?case
  proof (cases "n = 0")
    case True
    then show ?thesis by (simp add: bitLength.simps)
  next
    case False
    then have "n div 2 < 2 ^ bitLength (n div 2)" by (rule "1.IH")
    then have "n < 2 * 2 ^ bitLength (n div 2)" by linarith
    with False show ?thesis by (simp add: bitLength.simps [of n])
  qed
qed

lemma bitLength_ge: "0 < n \<Longrightarrow> 2 ^ (bitLength n - 1) \<le> n"
proof (induction n rule: bitLength.induct)
  case (1 n)
  then have pos: "n \<noteq> 0" by simp
  show ?case
  proof (cases "n div 2 = 0")
    case True
    with pos show ?thesis by (simp add: bitLength.simps [of n] bitLength.simps [of 0])
  next
    case False
    then have ih: "2 ^ (bitLength (n div 2) - 1) \<le> n div 2"
      using "1.IH" pos by simp
    have b: "0 < bitLength (n div 2)"
      using False by (simp add: bitLength.simps [of "n div 2"])
    have "2 ^ (bitLength n - 1) = (2::nat) ^ bitLength (n div 2)"
      using pos by (simp add: bitLength.simps [of n])
    also have "\<dots> = 2 * 2 ^ (bitLength (n div 2) - 1)"
      using b by (cases "bitLength (n div 2)") simp_all
    also have "\<dots> \<le> 2 * (n div 2)" using ih by simp
    also have "\<dots> \<le> n" by simp
    finally show ?thesis .
  qed
qed

lemma bitLength_pos: "0 < n \<Longrightarrow> 0 < bitLength n"
  by (simp add: bitLength.simps [of n])

lemma bitLength_le: "n < 2 ^ w \<Longrightarrow> bitLength n \<le> w"
proof (rule ccontr)
  assume n: "n < 2 ^ w" and "\<not> bitLength n \<le> w"
  then have w: "w \<le> bitLength n - 1" and pos: "0 < n"
    by (auto simp: bitLength.simps [of 0] intro: ccontr)
  have "(2::nat) ^ w \<le> 2 ^ (bitLength n - 1)"
    using w by (simp add: power_increasing)
  also have "\<dots> \<le> n" using pos by (rule bitLength_ge)
  finally show False using n by simp
qed

lemma roundHalfEven_of_int: "roundHalfEven (of_int j) = j"
  by (simp add: roundHalfEven_def)

lemma roundToDouble_multiple:
  assumes "0 < x" and "x / pow2 (max (floorLog2 x) (- 1022) - 52) = of_int j"
    and "pow2 (max (floorLog2 x) (- 1022) - 52) \<noteq> 0" and "x < 2 ^ 1024"
  shows "roundToDouble x = Num x"
proof -
  let ?q = "pow2 (max (floorLog2 x) (- 1022) - 52)"
  have "roundHalfEven (x / ?q) = j"
    by (simp only: assms(2) roundHalfEven_of_int)
  moreover have "of_int j * ?q = x"
    using assms(3) by (simp flip: assms(2))
  ultimately have r: "of_int (roundHalfEven (x / ?q)) * ?q = x"
    by simp
  have a: "\<bar>x\<bar> = x" using assms(1) by simp
  show ?thesis
    unfolding roundToDouble_def Let_def a r using assms(1,4) by simp
qed

lemma roundToDouble_nat:
  assumes "k \<le> 2 ^ 53"
  shows "roundToDouble (of_nat k) = Num (of_nat k)"
proof (cases "k = 0")
  case True
  then show ?thesis by (simp add: roundToDouble_def)
next
  case False
  then have pos: "0 < k" by simp
  let ?b = "bitLength k"
  have b1: "0 < ?b" using pos by (rule bitLength_pos)
  have "k < 2 ^ 54" using assms by simp
  then have b54: "?b \<le> 54" by (rule bitLength_le)
  have one: "(1::rat) \<le> of_nat k" using pos by simp
  have fl: "floorLog2 (of_nat k) = int ?b - 1"
    using one by (simp add: floorLog2_def)
  have e: "max (floorLog2 (of_nat k)) (- 1022) - 52 = int ?b - 53"
    using b1 by (simp add: fl)
  have small: "(of_nat k :: rat) < 2 ^ 1024"
  proof -
    have "(of_nat k :: rat) \<le> of_nat (2 ^ 53)" using assms by (simp only: of_nat_le_iff)
    also have "\<dots> = 2 ^ 53" by simp
    also have "\<dots> < (2::rat) ^ 1024" by (rule power_strict_increasing) simp_all
    finally show ?thesis .
  qed
  show ?thesis
  proof (cases "?b \<le> 53")
    case True
    then have q: "pow2 (int ?b - 53) = 1 / 2 ^ (53 - ?b)"
      by (cases "?b = 53") (simp_all add: pow2_def nat_diff_distrib')
    have m: "of_nat k / pow2 (int ?b - 53) = (of_int (int (k * 2 ^ (53 - ?b))) :: rat)"
      by (simp add: q)
    show ?thesis
      by (rule roundToDouble_multiple [where j = "int (k * 2 ^ (53 - ?b))"])
         (use pos small in \<open>simp_all add: e m\<close>, simp add: q)
  next
    case False
    then have b: "?b = 54" using b54 by simp
    have "2 ^ 53 \<le> k" using bitLength_ge [OF pos] by (simp add: b)
    then have k: "k = 2 ^ 53" using assms by simp
    have q: "pow2 (int ?b - 53) = 2" by (simp add: b pow2_def)
    have "of_nat k / (2::rat) = of_int (2 ^ 52)"
      by (simp add: k)
    then have m: "of_nat k / pow2 (int ?b - 53) = (of_int (2 ^ 52) :: rat)"
      by (simp only: q)
    show ?thesis
      by (rule roundToDouble_multiple [where j = "2 ^ 52"])
         (use pos small in \<open>simp_all add: e m\<close>, simp add: q)
  qed
qed

lemma js_add_nat:
  "a + b \<le> 2 ^ 53 \<Longrightarrow> js_add (Num (of_nat a)) (Num (of_nat b)) = Num (of_nat (a + b))"
  using roundToDouble_nat [of "a + b"] by simp


lemma foldl_fields:
  "foldl (\<lambda>running current.
            \<lparr>mainReadyTime = js_add (mainReadyTime running) (mainReadyTime current),
             loadTime = js_add (loadTime running) (loadTime current),
             rendererReadyTime = js_add (rendererReadyTime running) (rendererReadyTime current)\<rparr>)
     \<lparr>mainReadyTime = a, loadTime = b, rendererReadyTime = c\<rparr> rs
   = \<lparr>mainReadyTime = foldl js_add a (map mainReadyTime rs),
      loadTime = foldl js_add b (map loadTime rs),
      rendererReadyTime = foldl js_add c (map rendererReadyTime rs)\<rparr>"
  by (induction rs arbitrary: a b c) simp_all

lemma launchRecord_fields:
  "map mainReadyTime (map launchRecord ts) = map Num (map fst ts)"
  "map loadTime (map launchRecord ts) = map Num (map (fst \<circ> snd) ts)"
  "map rendererReadyTime (map launchRecord ts) = map Num (map (snd \<circ> snd) ts)"
  by (simp_all add: launchRecord_def)

lemma getAverageLaunchStats_roundedSum:
  "fst (getAverageLaunchStats (w\<lparr>launches := map launchRecord ts\<rparr>)) =
     \<lparr>mainReadyTime = js_div (roundedSum (map fst ts)) (Num (of_nat (length ts))),
      loadTime = js_div (roundedSum (map (fst \<circ> snd) ts)) (Num (of_nat (length ts))),
      rendererReadyTime = js_div (roundedSum (map (snd \<circ> snd) ts)) (Num (of_nat (length ts)))\<rparr>"
  unfolding getAverageLaunchStats_def launches_toArray_def roundedSum_def
  by (simp add: Let_def foldl_fields launchRecord_fields del: foldl_map map_map)

lemma foldl_js_add_nat:
  "s + sum_list xs \<le> 2 ^ 53 \<Longrightarrow>
     foldl js_add (Num (of_nat s)) (map Num (map of_nat xs)) = Num (of_nat (s + sum_list xs))"
proof (induction xs arbitrary: s)
  case Nil
  show ?case by simp
next
  case (Cons x xs)
  then have le: "s + x \<le> 2 ^ 53" and rest: "(s + x) + sum_list xs \<le> 2 ^ 53"
    by simp_all
  have "foldl js_add (Num (of_nat s)) (map Num (map of_nat (x # xs)))
          = foldl js_add (js_add (Num (of_nat s)) (Num (of_nat x))) (map Num (map of_nat xs))"
    by simp
  also have "\<dots> = foldl js_add (Num (of_nat (s + x))) (map Num (map of_nat xs))"
    by (simp only: js_add_nat [OF le])
  also have "\<dots> = Num (of_nat ((s + x) + sum_list xs))"
    using rest by (rule Cons.IH)
  finally show ?case by (simp add: add.assoc)
qed

lemma roundedSum_nat:
  "sum_list xs \<le> 2 ^ 53 \<Longrightarrow> roundedSum (map of_nat xs) = Num (of_nat (sum_list xs))"
  using foldl_js_add_nat [of 0 xs] by (simp add: roundedSum_def del: foldl_map map_map)

lemma wholeTimings_fields:
  "map fst (map wholeTimings ns) = map of_nat (map fst ns)"
  "map (fst \<circ> snd) (map wholeTimings ns) = map of_nat (map (fst \<circ> snd) ns)"
  "map (snd \<circ> snd) (map wholeTimings ns) = map of_nat (map (snd \<circ> snd) ns)"
  by (simp_all add: wholeTimings_def)

lemma js_div_count:
  "0 < n \<Longrightarrow> js_div (Num s) (Num (of_nat n)) = roundToDouble (s / of_nat n)"
  by simp

lemma getAverageLaunchStats_whole:
  assumes "ns \<noteq> []"
    and "sum_list (map fst ns) \<le> 2 ^ 53"
    and "sum_list (map (fst \<circ> snd) ns) \<le> 2 ^ 53"
    and "sum_list (map (snd \<circ> snd) ns) \<le> 2 ^ 53"
  shows "fst (getAverageLaunchStats (w\<lparr>launches := map launchRecord (map wholeTimings ns)\<rparr>)) =
     \<lparr>mainReadyTime = roundToDouble (of_nat (sum_list (map fst ns)) / of_nat (length ns)),
      loadTime = roundToDouble (of_nat (sum_list (map (fst \<circ> snd) ns)) / of_nat (length ns)),
      rendererReadyTime =
        roundToDouble (of_nat (sum_list (map (snd \<circ> snd) ns)) / of_nat (length ns))\<rparr>"
proof -
  have n: "0 < length ns" using assms(1) by simp
  show ?thesis
    unfolding getAverageLaunchStats_roundedSum wholeTimings_fields
    by (simp only: roundedSum_nat [OF assms(2)] roundedSum_nat [OF assms(3)]
          roundedSum_nat [OF assms(4)] length_map js_div_count [OF n])
qed

lemma getAverageLaunchStats_single:
  assumes "isDouble a" and "isDouble b" and "isDouble c"
  shows "fst (getAverageLaunchStats (w\<lparr>launches := [launchRecord (a, b, c)]\<rparr>))
           = launchRecord (a, b, c)"
  using assms getAverageLaunchStats_roundedSum [where w = w and ts = "[(a, b, c)]"]
  by (simp add: roundedSum_def isDouble_def launchRecord_def)

lemma roundToDouble_numeral:
  "numeral k \<le> (2 ^ 53 :: nat) \<Longrightarrow> roundToDouble (numeral k) = Num (numeral k)"
  using roundToDouble_nat [of "numeral k"] by simp

lemma getAverageLaunchStats_example:
  "fst (getAverageLaunchStats
     (w\<lparr>launches := [launchRecord (100, 200, 50), launchRecord (200, 300, 70),
                     launchRecord (300, 400, 90)]\<rparr>)) = launchRecord (200, 300, 70)"
proof -
  have "fst (getAverageLaunchStats
     (w\<lparr>launches := map launchRecord (map wholeTimings
          [(100, 200, 50), (200, 300, 70), (300, 400, 90)])\<rparr>)) =
     \<lparr>mainReadyTime = roundToDouble 200, loadTime = roundToDouble 300,
      rendererReadyTime = roundToDouble 70\<rparr>"
    by (subst getAverageLaunchStats_whole) simp_all
  then show ?thesis
    by (simp add: wholeTimings_def roundToDouble_numeral launchRecord_def)
qed


lemma roundToDouble_601_3:
  "roundToDouble (601 / 3) = Num (7048602541796011 / 35184372088832)"
proof -
  have f1: "\<lfloor>601 / 3 :: rat\<rfloor> = 200"
    by (simp add: floor_eq_iff)
  have f2: "\<lfloor>21145807625388032 / 3 :: rat\<rfloor> = 7048602541796010"
    by (simp add: floor_eq_iff)
  have bl: "bitLength 200 = 8"
    by (simp add: bitLength.simps)
  have e: "max (floorLog2 \<bar>601 / 3\<bar>) (- 1022) - 52 = 7 - 52"
    by (simp add: floorLog2_def bl f1)
  have q: "pow2 (7 - 52) = 1 / 35184372088832"
    by (simp add: pow2_def)
  have "roundHalfEven (601 / 3 / (1 / 35184372088832)) = 7048602541796011"
    by (simp add: roundHalfEven_def Let_def f2)
  then have r: "rat_of_int (roundHalfEven (\<bar>601 / 3\<bar> / (1 / 35184372088832)))
        * (1 / 35184372088832) = 7048602541796011 / 35184372088832"
    by simp
  have "(7048602541796011 / 35184372088832 :: rat) < 2 ^ 8" by simp
  also have "(2 ^ 8 :: rat) \<le> 2 ^ 1024" by (rule power_increasing) simp_all
  finally have big: "\<not> (2 ^ 1024 \<le> (7048602541796011 / 35184372088832 :: rat))" by simp
  show ?thesis
    unfolding roundToDouble_def Let_def e q r using big by simp
qed

lemma isDouble_25_2: "isDouble (25 / 2)"
proof -
  have f1: "\<lfloor>25 / 2 :: rat\<rfloor> = 12"
    by (simp add: floor_eq_iff)
  have bl: "bitLength 12 = 4"
    by (simp add: bitLength.simps)
  have e: "max (floorLog2 (25 / 2)) (- 1022) - 52 = - 49"
    by (simp add: floorLog2_def bl f1)
  have q: "pow2 (- 49) = 1 / 2 ^ 49"
    by (simp add: pow2_def)
  have "(25 / 2 :: rat) < 2 ^ 4" by simp
  also have "(2 ^ 4 :: rat) \<le> 2 ^ 1024" by (rule power_increasing) simp_all
  finally have small: "(25 / 2 :: rat) < 2 ^ 1024" .
  have "roundToDouble (25 / 2) = Num (25 / 2)"
    by (rule roundToDouble_multiple [where j = "25 * 2 ^ 48"])
       (use small in \<open>simp_all add: e q\<close>)
  then show ?thesis by (simp add: isDouble_def)
qed

text \<open>
  Claim C4 as stated fails where the mean is not a double: for the records (100, 200, 50),
  (200, 300, 70) and (301, 400, 91) the sum 601 is exact, and the quotient by 3 is rounded
  to 7048602541796011 / 2^45 (printed 200.33333333333334), which is not 601 / 3.
\<close>

theorem getAverageLaunchStats_mean_counterexample:
  "mainReadyTime (fst (getAverageLaunchStats
      (exampleWorld\<lparr>launches := [launchRecord (100, 200, 50), launchRecord (200, 300, 70),
                                 launchRecord (301, 400, 91)]\<rparr>)))
     = Num (7048602541796011 / 35184372088832)
   \<and> (7048602541796011 / 35184372088832 :: rat) \<noteq> (100 + 200 + 301) / 3"
proof -
  have "fst (getAverageLaunchStats
     (exampleWorld\<lparr>launches := map launchRecord (map wholeTimings
          [(100, 200, 50), (200, 300, 70), (301, 400, 91)])\<rparr>)) =
     \<lparr>mainReadyTime = roundToDouble (601 / 3), loadTime = roundToDouble 300,
      rendererReadyTime = roundToDouble (211 / 3)\<rparr>"
    by (subst getAverageLaunchStats_whole) simp_all
  then show ?thesis
    by (simp add: wholeTimings_def roundToDouble_601_3)
qed

text \<open>
  Claim C4, amended. For every sequence of launch records with finite timings, each field
  of the result is the sum of that field, added up from 0 in table order with every
  addition rounded to a double, divided by the number of records with the quotient rounded
  to a double. When the timings are whole milliseconds and no field sum exceeds \<open>2^53\<close>,
  the sums are exact and each field is the double nearest to the arithmetic mean. For one
  record whose timings are doubles the result is that record, and for the records
  (100, 200, 50), (200, 300, 70) and (300, 400, 90) it is (200, 300, 70).
\<close>

theorem getAverageLaunchStats_rounded_mean:
  "fst (getAverageLaunchStats (w\<lparr>launches := map launchRecord ts\<rparr>)) =
     \<lparr>mainReadyTime = js_div (roundedSum (map fst ts)) (Num (of_nat (length ts))),
      loadTime = js_div (roundedSum (map (fst \<circ> snd) ts)) (Num (of_nat (length ts))),
      rendererReadyTime = js_div (roundedSum (map (snd \<circ> snd) ts)) (Num (of_nat (length ts)))\<rparr>
   \<and> (ns \<noteq> [] \<and> sum_list (map fst ns) \<le> 2 ^ 53 \<and> sum_list (map (fst \<circ> snd) ns) \<le> 2 ^ 53
        \<and> sum_list (map (snd \<circ> snd) ns) \<le> 2 ^ 53 \<longrightarrow>
      fst (getAverageLaunchStats (w\<lparr>launches := map launchRecord (map wholeTimings ns)\<rparr>)) =
        \<lparr>mainReadyTime = roundToDouble (of_nat (sum_list (map fst ns)) / of_nat (length ns)),
         loadTime = roundToDouble (of_nat (sum_list (map (fst \<circ> snd) ns)) / of_nat (length ns)),
         rendererReadyTime =
           roundToDouble (of_nat (sum_list (map (snd \<circ> snd) ns)) / of_nat (length ns))\<rparr>)
   \<and> (isDouble a \<and> isDouble b \<and> isDouble c \<longrightarrow>
        fst (getAverageLaunchStats (w\<lparr>launches := [launchRecord (a, b, c)]\<rparr>))
          = launchRecord (a, b, c))
   \<and> fst (getAverageLaunchStats
        (w\<lparr>launches := [launchRecord (100, 200, 50), launchRecord (200, 300, 70),
                        launchRecord (300, 400, 90)]\<rparr>)) = launchRecord (200, 300, 70)"
  using getAverageLaunchStats_roundedSum [where w = w and ts = ts]
    getAverageLaunchStats_whole [where w = w and ns = ns]
    getAverageLaunchStats_single [where w = w and a = a and b = b and c = c]
    getAverageLaunchStats_example [where w = w]
  by blast

theorem getAverageLaunchStats_rounded_mean_witness:
  "([(100, 200, 50), (200, 300, 70), (301, 400, 91)] :: (nat \<times> nat \<times> nat) list) \<noteq> []
   \<and> sum_list (map fst ([(100, 200, 50), (200, 300, 70), (301, 400, 91)] :: (nat \<times> nat \<times> nat) list)) \<le> 2 ^ 53
   \<and> sum_list (map (fst \<circ> snd) ([(100, 200, 50), (200, 300, 70), (301, 400, 91)] :: (nat \<times> nat \<times> nat) list)) \<le> 2 ^ 53
   \<and> sum_list (map (snd \<circ> snd) ([(100, 200, 50), (200, 300, 70), (301, 400, 91)] :: (nat \<times> nat \<times> nat) list)) \<le> 2 ^ 53
   \<and> fst (getAverageLaunchStats
        (exampleWorld\<lparr>launches := map launchRecord (map wholeTimings
           [(100, 200, 50), (200, 300, 70), (301, 400, 91)])\<rparr>)) =
        \<lparr>mainReadyTime = roundToDouble (601 / 3), loadTime = Num 300,
         rendererReadyTime = roundToDouble (211 / 3)\<rparr>
   \<and> isDouble (25 / 2) \<and> isDouble 100 \<and> isDouble 300
   \<and> fst (getAverageLaunchStats (exampleWorld\<lparr>launches := [launchRecord (25 / 2, 100, 300)]\<rparr>))
        = launchRecord (25 / 2, 100, 300)"
proof -
  have d: "isDouble 100" "isDouble 300"
    by (simp_all add: isDouble_def roundToDouble_numeral)
  have r: "roundToDouble 300 = Num 300"
    by (simp add: roundToDouble_numeral)
  show ?thesis
    using getAverageLaunchStats_rounded_mean
            [where w = exampleWorld and ts = "[]"
               and ns = "[(100, 200, 50), (200, 300, 70), (301, 400, 91)]"
               and a = "25 / 2" and b = 100 and c = 300]
          isDouble_25_2 d r
    by simp
qed













lemma fold_max_ge: "a \<le> fold max xs (a :: nat)"
proof (induction xs arbitrary: a)
  case Nil
  show ?case by simp
next
  case (Cons x xs)
  have "a \<le> max x a" by simp
  also have "\<dots> \<le> fold max xs (max x a)" by (rule Cons.IH)
  finally show ?case by simp
qed

lemma nextKey_greater: "i < nextKey ((i, c) # rows)"
proof -
  have "i \<le> max i 0" by simp
  also have "\<dots> \<le> fold max (map fst rows) (max i 0)" by (rule fold_max_ge)
  finally show ?thesis by (simp add: nextKey_def)
qed

lemma upsert_keeps_head: "i < k \<Longrightarrow> hd (upsert k c ((i, d) # rows)) = (i, d)"
  by simp

lemma recordCommit_no_row:
  "dailyDimensions w = [] \<Longrightarrow>
     fst (recordCommit w) = Inr () \<and> dailyDimensions (snd (recordCommit w)) = [(1, Num 1)]"
  by (simp add: recordCommit_def dailyDimensions_first_def dailyDimensions_put_def Let_def
      emit_def nextKey_def split: keyScheme.split)

lemma recordCommit_inline_row:
  "schema w = InlineKey \<Longrightarrow> dailyDimensions w = (i, c) # rows \<Longrightarrow>
     fst (recordCommit w) = Inl DataError \<and> dailyDimensions (snd (recordCommit w)) = (i, c) # rows"
  by (simp add: recordCommit_def dailyDimensions_first_def dailyDimensions_put_def Let_def
      emit_def)

lemma recordCommit_outofline_row:
  "schema w = OutOfLineKey \<Longrightarrow> dailyDimensions w = (i, c) # rows \<Longrightarrow>
     fst (recordCommit w) = Inr ()
     \<and> dailyDimensions (snd (recordCommit w))
         = upsert (nextKey ((i, c) # rows)) (js_add c (Num 1)) ((i, c) # rows)"
  by (simp add: recordCommit_def dailyDimensions_first_def dailyDimensions_put_def Let_def
      emit_def)

lemma recordCommit_schema: "schema (snd (recordCommit w)) = schema w"
  by (simp add: recordCommit_def dailyDimensions_first_def dailyDimensions_put_def Let_def
      emit_def split: keyScheme.split option.split list.split)

lemma recordCommit_keeps_first_row:
  assumes "dailyDimensions w = (i, c) # rows"
  shows "\<exists>rows'. dailyDimensions (snd (recordCommit w)) = (i, c) # rows'"
proof (cases "schema w")
  case InlineKey
  then show ?thesis
    using recordCommit_inline_row [OF InlineKey assms] by simp
next
  case OutOfLineKey
  have k: "nextKey ((i, c) # rows) \<noteq> i" "\<not> nextKey ((i, c) # rows) < i"
    using nextKey_greater [of i c rows] by simp_all
  show ?thesis
    using recordCommit_outofline_row [OF OutOfLineKey assms] k by simp
qed

lemma recordCommits_Suc: "recordCommits (Suc k) w = snd (recordCommit (recordCommits k w))"
  by (simp add: recordCommits_def)

lemma recordCommits_first_row:
  "\<exists>rows. dailyDimensions (recordCommits (Suc k) (w\<lparr>dailyDimensions := []\<rparr>)) = (1, Num 1) # rows"
proof (induction k)
  case 0
  have "dailyDimensions (snd (recordCommit (w\<lparr>dailyDimensions := []\<rparr>))) = [(1, Num 1)]"
    using recordCommit_no_row [of "w\<lparr>dailyDimensions := []\<rparr>"] by simp
  then show ?case by (simp add: recordCommits_def)
next
  case (Suc k)
  then obtain rows where
    "dailyDimensions (recordCommits (Suc k) (w\<lparr>dailyDimensions := []\<rparr>)) = (1, Num 1) # rows"
    by blast
  then show ?case
    unfolding recordCommits_Suc [of "Suc k"] by (rule recordCommit_keeps_first_row)
qed

lemma roundToDouble_2: "roundToDouble 2 = Num 2"
  using roundToDouble_nat [of 2] by simp

text \<open>
  Claim C5, at the input where the code departs from it. Starting without a row, the first
  call of \<open>recordCommit\<close> creates the row with \<open>commits\<close> 1, and after any number of
  further calls the row that \<open>getDailyDimensions\<close> reads still has \<open>commits\<close> 1, however
  the table declares its key. With an in-line key the second call passes the key of the
  row to \<open>put\<close>, which refuses it with \<open>DataError\<close>: the promise is rejected and the table
  keeps its one row. With an out-of-line key the row read has no \<open>id\<close>, so every later
  call appends a row with \<open>commits\<close> 2 under a new key and the first row is never written.
\<close>

theorem recordCommit_count_stays_one:
  "map_option commits (fst (getDailyDimensions (recordCommits (Suc k) (w\<lparr>dailyDimensions := []\<rparr>))))
     = Some (Num 1)
   \<and> fst (recordCommit (w\<lparr>dailyDimensions := []\<rparr>)) = Inr ()
   \<and> fst (recordCommit (recordCommits 1 (w\<lparr>dailyDimensions := [], schema := InlineKey\<rparr>)))
       = Inl DataError
   \<and> dailyDimensions (recordCommits 3 (w\<lparr>dailyDimensions := [], schema := InlineKey\<rparr>))
       = [(1, Num 1)]
   \<and> dailyDimensions (recordCommits 3 (w\<lparr>dailyDimensions := [], schema := OutOfLineKey\<rparr>))
       = [(1, Num 1), (2, Num 2), (3, Num 2)]"
proof -
  obtain rows where
    "dailyDimensions (recordCommits (Suc k) (w\<lparr>dailyDimensions := []\<rparr>)) = (1, Num 1) # rows"
    using recordCommits_first_row [of k w] by blast
  then have a: "map_option commits
      (fst (getDailyDimensions (recordCommits (Suc k) (w\<lparr>dailyDimensions := []\<rparr>)))) = Some (Num 1)"
    by (simp add: getDailyDimensions_def dailyDimensions_first_def)
  have b: "fst (recordCommit (w\<lparr>dailyDimensions := []\<rparr>)) = Inr ()"
    using recordCommit_no_row [of "w\<lparr>dailyDimensions := []\<rparr>"] by simp
  let ?wi = "w\<lparr>dailyDimensions := [], schema := InlineKey\<rparr>"
  have i1: "dailyDimensions (recordCommits 1 ?wi) = [(1, Num 1)]"
    using recordCommit_no_row [of ?wi] by (simp add: recordCommits_def)
  have si: "\<And>n. schema (recordCommits n ?wi) = InlineKey"
    subgoal for n by (induction n) (simp_all add: recordCommits_def recordCommit_schema)
    done
  have c: "fst (recordCommit (recordCommits 1 ?wi)) = Inl DataError"
    using recordCommit_inline_row [OF si i1] by simp
  have i2: "dailyDimensions (recordCommits (Suc 1) ?wi) = [(1, Num 1)]"
    unfolding recordCommits_Suc using recordCommit_inline_row [OF si i1] by simp
  have i3: "dailyDimensions (recordCommits (Suc (Suc 1)) ?wi) = [(1, Num 1)]"
    unfolding recordCommits_Suc [of "Suc 1"] using recordCommit_inline_row [OF si i2] by simp
  let ?wo = "w\<lparr>dailyDimensions := [], schema := OutOfLineKey\<rparr>"
  have so: "\<And>n. schema (recordCommits n ?wo) = OutOfLineKey"
    subgoal for n by (induction n) (simp_all add: recordCommits_def recordCommit_schema)
    done
  have o1: "dailyDimensions (recordCommits 1 ?wo) = [(1, Num 1)]"
    using recordCommit_no_row [of ?wo] by (simp add: recordCommits_def)
  have o2: "dailyDimensions (recordCommits (Suc 1) ?wo) = [(1, Num 1), (2, Num 2)]"
    unfolding recordCommits_Suc using recordCommit_outofline_row [OF so o1]
    by (simp add: nextKey_def roundToDouble_2)
  have o3: "dailyDimensions (recordCommits (Suc (Suc 1)) ?wo) = [(1, Num 1), (2, Num 2), (3, Num 2)]"
    unfolding recordCommits_Suc [of "Suc 1"] using recordCommit_outofline_row [OF so o2]
    by (simp add: nextKey_def roundToDouble_2)
  have three: "(3::nat) = Suc (Suc 1)" by simp
  show ?thesis
    using a b c i3 o3 unfolding three by blast
qed

end
